theory Spec2Isabelle
  imports Main "HOL-Library.AList" "HOL-Library.Multiset"
begin

section \<open>Data model (src/types/form.ts)\<close>

text \<open>
  Record fields are global names in HOL, so the attributes \<open>id\<close>, \<open>type\<close>, \<open>label\<close>,
  \<open>value\<close> of the TypeScript interfaces carry the name of their interface as a prefix.
  An optional attribute (\<open>placeholder?\<close>) is an \<open>option\<close>.  A \<open>Date\<close> is the number of
  milliseconds since the epoch, as \<open>Date.now()\<close> returns it.
\<close>

datatype FieldType =
  Text | Textarea | Email | Phone | Number | Password | Dropdown | Radio | Checkbox
  | Date | File | First_name | Last_name

datatype FormStatus = Active | Inactive

record FieldOption =
  option_id :: string
  option_label :: string
  option_value :: string

record ValidationRules =
  minLength :: "int option"
  maxLength :: "int option"
  pattern :: "string option"
  rule_min :: "int option"
  rule_max :: "int option"

text \<open>
  Modelled from the spec: the declarations of \<open>FieldWidth\<close> and \<open>FieldPosition\<close>, which
  the builder imports from the types module, are not in the types module at hand; the
  specification gives their values (full, half, third, quarter; left, center, right).
\<close>

datatype FieldWidth = Full | Half | Third | Quarter

datatype FieldPosition = Left | Center | Right

record FormField =
  field_id :: string
  field_type :: FieldType
  label :: string
  placeholder :: "string option"
  required :: bool
  options :: "FieldOption list option"
  validationRules :: "ValidationRules option"
  pageNumber :: nat
  width :: "FieldWidth option"
  position :: "FieldPosition option"

record FormSettings =
  emailNotifications :: bool
  redirectUrl :: "string option"
  thankYouMessage :: string
  expirationDate :: "nat option"

record Form =
  form_id :: string
  title :: string
  description :: "string option"
  status :: FormStatus
  form_fields :: "FormField list"
  settings :: FormSettings
  createdBy :: string
  createdAt :: nat
  updatedAt :: nat

text \<open>
  An answer is typed \<open>any\<close>.  The respondent page stores the text of an input, the list of
  ticked option values or of file names, and \<open>undefined\<close> (a date that was cleared).
  A \<open>Record<string, any>\<close> is an association list written with \<open>AList.update\<close>, which
  overwrites the entry of a key where it stands and appends a new key, as an object spread
  with a computed key does.
\<close>

datatype answer = Undefined | Str string | Strs "string list"

type_synonym answers = "(string \<times> answer) list"

record FormResponse =
  response_id :: string
  formId :: string
  response_answers :: answers
  files :: "string list option"
  submittedAt :: nat

record DashboardStats =
  totalForms :: nat
  activeForms :: nat
  inactiveForms :: nat
  totalResponses :: nat

section \<open>Form store (src/contexts/FormContext.tsx)\<close>

text \<open>The three \<open>useState\<close> cells of \<open>FormProvider\<close>.\<close>

record store =
  forms :: "Form list"
  currentForm :: "Form option"
  responses :: "FormResponse list"

text \<open>\<open>Number.prototype.toString\<close> on a non-negative integer: its decimal digits.\<close>

definition digit :: "nat \<Rightarrow> char" where
  "digit d = char_of (48 + d)"

fun toString :: "nat \<Rightarrow> string" where
  "toString n = (if n < 10 then [digit n] else toString (n div 10) @ [digit (n mod 10)])"

declare toString.simps [simp del]

definition stats :: "store \<Rightarrow> DashboardStats" where
  "stats st =
     \<lparr> totalForms = length (forms st),
       activeForms = length (filter (\<lambda>f. status f = Active) (forms st)),
       inactiveForms = length (filter (\<lambda>f. status f = Inactive) (forms st)),
       totalResponses = length (responses st) \<rparr>"

text \<open>
  \<open>Partial<Form>\<close> and \<open>Partial<FormField>\<close>: one optional entry for each attribute, \<open>None\<close>
  for a key the object literal does not have.  \<open>updatedAt\<close> is left out of
  \<open>Partial<Form>\<close>, since \<open>updateForm\<close> writes it after the spread.
\<close>

record FormUpdates =
  upd_form_id :: "string option"
  upd_title :: "string option"
  upd_description :: "string option option"
  upd_status :: "FormStatus option"
  upd_fields :: "FormField list option"
  upd_settings :: "FormSettings option"
  upd_createdBy :: "string option"
  upd_createdAt :: "nat option"

record FieldUpdates =
  upd_field_id :: "string option"
  upd_field_type :: "FieldType option"
  upd_label :: "string option"
  upd_placeholder :: "string option option"
  upd_required :: "bool option"
  upd_options :: "FieldOption list option option"
  upd_validationRules :: "ValidationRules option option"
  upd_pageNumber :: "nat option"
  upd_width :: "FieldWidth option option"
  upd_position :: "FieldPosition option option"

definition noFormUpdates :: FormUpdates where
  "noFormUpdates =
     \<lparr> upd_form_id = None, upd_title = None, upd_description = None, upd_status = None,
       upd_fields = None, upd_settings = None, upd_createdBy = None, upd_createdAt = None \<rparr>"

definition noFieldUpdates :: FieldUpdates where
  "noFieldUpdates =
     \<lparr> upd_field_id = None, upd_field_type = None, upd_label = None, upd_placeholder = None,
       upd_required = None, upd_options = None, upd_validationRules = None,
       upd_pageNumber = None, upd_width = None, upd_position = None \<rparr>"

text \<open>One key of a spread \<open>{ ...old, ...updates }\<close>.\<close>

definition spread :: "'a \<Rightarrow> 'a option \<Rightarrow> 'a" where
  "spread old u = (case u of None \<Rightarrow> old | Some v \<Rightarrow> v)"

text \<open>\<open>{ ...f, ...updates, updatedAt: new Date() }\<close>\<close>

definition mergeForm :: "nat \<Rightarrow> Form \<Rightarrow> FormUpdates \<Rightarrow> Form" where
  "mergeForm now f u =
     \<lparr> form_id = spread (form_id f) (upd_form_id u),
       title = spread (title f) (upd_title u),
       description = spread (description f) (upd_description u),
       status = spread (status f) (upd_status u),
       form_fields = spread (form_fields f) (upd_fields u),
       settings = spread (settings f) (upd_settings u),
       createdBy = spread (createdBy f) (upd_createdBy u),
       createdAt = spread (createdAt f) (upd_createdAt u),
       updatedAt = now \<rparr>"

text \<open>\<open>{ ...f, ...updates }\<close>\<close>

definition mergeField :: "FormField \<Rightarrow> FieldUpdates \<Rightarrow> FormField" where
  "mergeField f u =
     \<lparr> field_id = spread (field_id f) (upd_field_id u),
       field_type = spread (field_type f) (upd_field_type u),
       label = spread (label f) (upd_label u),
       placeholder = spread (placeholder f) (upd_placeholder u),
       required = spread (required f) (upd_required u),
       options = spread (options f) (upd_options u),
       validationRules = spread (validationRules f) (upd_validationRules u),
       pageNumber = spread (pageNumber f) (upd_pageNumber u),
       width = spread (width f) (upd_width u),
       position = spread (position f) (upd_position u) \<rparr>"

text \<open>
  Every operation of the provider is a closure made by \<open>useCallback\<close>: what it reads from
  \<open>currentForm\<close> and \<open>forms\<close> is the value of the render that made it, while the
  functional updates \<open>setForms (prev => ...)\<close> and \<open>setCurrentForm (prev => ...)\<close> act
  on the pending state.  The captured value is the first argument (\<open>cf\<close>, \<open>fs\<close>), the
  pending state the last; \<open>now\<close> is the reading of the clock.
\<close>

definition createForm :: "nat \<Rightarrow> string \<Rightarrow> string option \<Rightarrow> store \<Rightarrow> Form \<times> store" where
  "createForm now ttl descr st =
     (let newForm =
        \<lparr> form_id = toString now, title = ttl, description = descr, status = Inactive,
          form_fields = [],
          settings = \<lparr> emailNotifications = False, redirectUrl = None,
                       thankYouMessage = ''Thank you for your submission!'',
                       expirationDate = None \<rparr>,
          createdBy = ''1'', createdAt = now, updatedAt = now \<rparr>
      in (newForm, st\<lparr>forms := forms st @ [newForm]\<rparr>))"

definition updateForm :: "Form option \<Rightarrow> nat \<Rightarrow> string \<Rightarrow> FormUpdates \<Rightarrow> store \<Rightarrow> store" where
  "updateForm cf now fid updates st =
     st\<lparr> forms := map (\<lambda>f. if form_id f = fid then mergeForm now f updates else f) (forms st),
         currentForm :=
           (if map_option form_id cf = Some fid
            then (case currentForm st of
                    Some prev \<Rightarrow> Some (mergeForm now prev updates)
                  | None \<Rightarrow> None)
            else currentForm st) \<rparr>"

definition deleteForm :: "Form option \<Rightarrow> string \<Rightarrow> store \<Rightarrow> store" where
  "deleteForm cf fid st =
     st\<lparr> forms := filter (\<lambda>f. form_id f \<noteq> fid) (forms st),
         currentForm := (if map_option form_id cf = Some fid then None else currentForm st) \<rparr>"

definition setCurrentForm :: "Form option \<Rightarrow> store \<Rightarrow> store" where
  "setCurrentForm form st = st\<lparr>currentForm := form\<rparr>"

definition addField :: "Form option \<Rightarrow> nat \<Rightarrow> FormField \<Rightarrow> store \<Rightarrow> store" where
  "addField cf now field st =
     (case cf of
        None \<Rightarrow> st
      | Some c \<Rightarrow>
          updateForm cf now (form_id c) (noFormUpdates\<lparr>upd_fields := Some (form_fields c @ [field])\<rparr>) st)"

definition updateField :: "Form option \<Rightarrow> nat \<Rightarrow> string \<Rightarrow> FieldUpdates \<Rightarrow> store \<Rightarrow> store" where
  "updateField cf now fieldId updates st =
     (case cf of
        None \<Rightarrow> st
      | Some c \<Rightarrow>
          (let updatedFields =
                 map (\<lambda>f. if field_id f = fieldId then mergeField f updates else f) (form_fields c)
           in updateForm cf now (form_id c) (noFormUpdates\<lparr>upd_fields := Some updatedFields\<rparr>) st))"

definition removeField :: "Form option \<Rightarrow> nat \<Rightarrow> string \<Rightarrow> store \<Rightarrow> store" where
  "removeField cf now fieldId st =
     (case cf of
        None \<Rightarrow> st
      | Some c \<Rightarrow>
          (let updatedFields = filter (\<lambda>f. field_id f \<noteq> fieldId) (form_fields c)
           in updateForm cf now (form_id c) (noFormUpdates\<lparr>upd_fields := Some updatedFields\<rparr>) st))"

text \<open>
  \<open>const [removed] = result.splice(startIndex, 1); result.splice(endIndex, 0, removed)\<close>
  on a copy of the array.  The indices are the positions the drag handlers pass, hence
  naturals.  A start at or beyond the length removes nothing, \<open>removed\<close> is
  \<open>undefined\<close> and the second splice puts \<open>undefined\<close> into the array, which then is
  no array of fields any more: the result is \<open>None\<close>.  An insertion index beyond the length
  is clamped to the length.
\<close>

definition splice_remove :: "nat \<Rightarrow> 'a list \<Rightarrow> 'a option \<times> 'a list" where
  "splice_remove i xs =
     (if i < length xs then (Some (xs ! i), take i xs @ drop (Suc i) xs) else (None, xs))"

definition splice_insert :: "nat \<Rightarrow> 'a \<Rightarrow> 'a list \<Rightarrow> 'a list" where
  "splice_insert j x xs = take j xs @ [x] @ drop j xs"

definition reorder :: "nat \<Rightarrow> nat \<Rightarrow> 'a list \<Rightarrow> 'a list option" where
  "reorder startIndex endIndex xs =
     (case splice_remove startIndex xs of
        (None, _) \<Rightarrow> None
      | (Some removed, result) \<Rightarrow> Some (splice_insert endIndex removed result))"

definition reorderFields :: "Form option \<Rightarrow> nat \<Rightarrow> nat \<Rightarrow> nat \<Rightarrow> store \<Rightarrow> store option" where
  "reorderFields cf now startIndex endIndex st =
     (case cf of
        None \<Rightarrow> Some st
      | Some c \<Rightarrow>
          (case reorder startIndex endIndex (form_fields c) of
             None \<Rightarrow> None
           | Some result \<Rightarrow>
               Some (updateForm cf now (form_id c) (noFormUpdates\<lparr>upd_fields := Some result\<rparr>) st)))"

definition toggleFormStatus :: "Form list \<Rightarrow> Form option \<Rightarrow> nat \<Rightarrow> string \<Rightarrow> store \<Rightarrow> store" where
  "toggleFormStatus fs cf now fid st =
     (case find (\<lambda>f. form_id f = fid) fs of
        Some form \<Rightarrow>
          updateForm cf now fid
            (noFormUpdates\<lparr>upd_status := Some (if status form = Active then Inactive else Active)\<rparr>) st
      | None \<Rightarrow> st)"

definition submitResponse :: "nat \<Rightarrow> string \<Rightarrow> answers \<Rightarrow> string list option \<Rightarrow> store \<Rightarrow> store" where
  "submitResponse now fid ans fls st =
     (let newResponse =
        \<lparr> response_id = toString now, formId = fid, response_answers = ans, files = fls,
          submittedAt = now \<rparr>
      in st\<lparr>responses := responses st @ [newResponse]\<rparr>)"

definition getFormById :: "string \<Rightarrow> store \<Rightarrow> Form option" where
  "getFormById fid st = find (\<lambda>f. form_id f = fid) (forms st)"

text \<open>
  One call of an operation of the store, made through the closures of the latest render:
  what they captured is the state they act on.
\<close>

datatype store_op =
  CreateForm string "string option"
  | UpdateForm string FormUpdates
  | DeleteForm string
  | SetCurrentForm "Form option"
  | AddField FormField
  | UpdateField string FieldUpdates
  | RemoveField string
  | ReorderFields nat nat
  | ToggleFormStatus string
  | SubmitResponse string answers "string list option"

fun apply_op :: "nat \<Rightarrow> store_op \<Rightarrow> store \<Rightarrow> store option" where
  "apply_op now (CreateForm ttl descr) st = Some (snd (createForm now ttl descr st))"
| "apply_op now (UpdateForm fid u) st = Some (updateForm (currentForm st) now fid u st)"
| "apply_op now (DeleteForm fid) st = Some (deleteForm (currentForm st) fid st)"
| "apply_op now (SetCurrentForm form) st = Some (setCurrentForm form st)"
| "apply_op now (AddField field) st = Some (addField (currentForm st) now field st)"
| "apply_op now (UpdateField fieldId u) st = Some (updateField (currentForm st) now fieldId u st)"
| "apply_op now (RemoveField fieldId) st = Some (removeField (currentForm st) now fieldId st)"
| "apply_op now (ReorderFields i j) st = reorderFields (currentForm st) now i j st"
| "apply_op now (ToggleFormStatus fid) st =
     Some (toggleFormStatus (forms st) (currentForm st) now fid st)"
| "apply_op now (SubmitResponse fid ans fls) st = Some (submitResponse now fid ans fls st)"

text \<open>
  The mock data the provider starts from.  \<open>field\<close> is an object literal of a field that
  gives none of the optional attributes.
\<close>

definition field :: "string \<Rightarrow> FieldType \<Rightarrow> string \<Rightarrow> bool \<Rightarrow> nat \<Rightarrow> FormField" where
  "field i t l r p =
     \<lparr> field_id = i, field_type = t, label = l, placeholder = None, required = r,
       options = None, validationRules = None, pageNumber = p, width = None,
       position = None \<rparr>"

definition mockSettings :: "string \<Rightarrow> FormSettings" where
  "mockSettings msg =
     \<lparr> emailNotifications = True, redirectUrl = None, thankYouMessage = msg,
       expirationDate = None \<rparr>"

definition mockForms :: "Form list" where
  "mockForms =
     [ \<lparr> form_id = ''1'', title = ''Customer Feedback Survey'',
         description = Some ''Help us improve our services'', status = Active,
         form_fields =
           [ field ''f1'' First_name ''First Name'' True 1,
             field ''f2'' Last_name ''Last Name'' True 1,
             field ''f3'' Email ''Email Address'' True 1,
             (field ''f4'' Radio ''How satisfied are you?'' True 1)
               \<lparr> options := Some
                   [ \<lparr> option_id = ''o1'', option_label = ''Very Satisfied'',
                       option_value = ''very_satisfied'' \<rparr>,
                     \<lparr> option_id = ''o2'', option_label = ''Satisfied'',
                       option_value = ''satisfied'' \<rparr>,
                     \<lparr> option_id = ''o3'', option_label = ''Neutral'',
                       option_value = ''neutral'' \<rparr>,
                     \<lparr> option_id = ''o4'', option_label = ''Dissatisfied'',
                       option_value = ''dissatisfied'' \<rparr> ] \<rparr>,
             field ''f5'' Textarea ''Additional Comments'' False 1 ],
         settings = mockSettings ''Thank you for your feedback!'',
         createdBy = ''1'', createdAt = 1705276800000, updatedAt = 1705276800000 \<rparr>,
       \<lparr> form_id = ''2'', title = ''Event Registration'',
         description = Some ''Register for our upcoming workshop'', status = Active,
         form_fields =
           [ field ''f1'' First_name ''First Name'' True 1,
             field ''f2'' Email ''Email'' True 1,
             field ''f3'' Phone ''Phone Number'' False 1 ],
         settings = mockSettings ''You are registered!'',
         createdBy = ''1'', createdAt = 1705708800000, updatedAt = 1705708800000 \<rparr>,
       \<lparr> form_id = ''3'', title = ''Job Application'',
         description = Some ''Apply for a position at our company'', status = Inactive,
         form_fields = [],
         settings = mockSettings ''Thank you for applying!'',
         createdBy = ''1'', createdAt = 1704844800000, updatedAt = 1704844800000 \<rparr> ]"

definition mockResponses :: "FormResponse list" where
  "mockResponses =
     [ \<lparr> response_id = ''r1'', formId = ''1'',
         response_answers =
           [(''f1'', Str ''John''), (''f2'', Str ''Doe''), (''f3'', Str ''john@example.com''),
            (''f4'', Str ''satisfied''), (''f5'', Str ''Great service!'')],
         files = None, submittedAt = 1705363200000 \<rparr>,
       \<lparr> response_id = ''r2'', formId = ''1'',
         response_answers =
           [(''f1'', Str ''Jane''), (''f2'', Str ''Smith''), (''f3'', Str ''jane@example.com''),
            (''f4'', Str ''very_satisfied''), (''f5'', Str [])],
         files = None, submittedAt = 1705449600000 \<rparr>,
       \<lparr> response_id = ''r3'', formId = ''2'',
         response_answers =
           [(''f1'', Str ''Bob''), (''f2'', Str ''bob@example.com''), (''f3'', Str ''+1234567890'')],
         files = None, submittedAt = 1705795200000 \<rparr> ]"

definition initialStore :: store where
  "initialStore = \<lparr> forms = mockForms, currentForm = None, responses = mockResponses \<rparr>"

section \<open>Toasts\<close>

record Toast =
  toast_title :: string
  toast_description :: string
  destructive :: bool

section \<open>Builder page (src/pages/FormBuilder.tsx)\<close>

text \<open>
  The state of the builder page that page management reads and writes.  The value of
  \<open>currentForm\<close> the handlers of a render see is the one of the store at that render.
\<close>

record FormBuilder =
  fb_currentPage :: nat
  selectedFieldId :: "string option"
  fb_toasts :: "Toast list"

text \<open>
  \<open>currentForm?.fields.length ? Math.max(...currentForm.fields.map(f => f.pageNumber), 1) : 1\<close>
\<close>

definition FormBuilder_totalPages :: "Form option \<Rightarrow> nat" where
  "FormBuilder_totalPages cf =
     (case cf of
        None \<Rightarrow> 1
      | Some c \<Rightarrow>
          if length (form_fields c) \<noteq> 0
          then Max (set (map pageNumber (form_fields c) @ [1]))
          else 1)"

definition currentPageFields :: "Form option \<Rightarrow> nat \<Rightarrow> FormField list" where
  "currentPageFields cf page =
     (case cf of
        None \<Rightarrow> []
      | Some c \<Rightarrow> filter (\<lambda>f. pageNumber f = page) (form_fields c))"

definition addPage_onClick :: "store \<times> FormBuilder \<Rightarrow> store \<times> FormBuilder" where
  "addPage_onClick s =
     (case s of (st, fb) \<Rightarrow>
        (let newPage = FormBuilder_totalPages (currentForm st) + 1
         in (st, fb\<lparr> fb_currentPage := newPage,
                     fb_toasts := fb_toasts fb @
                       [\<lparr> toast_title = ''Page added'',
                          toast_description = ''Page '' @ toString newPage @ '' has been created.'',
                          destructive = False \<rparr>] \<rparr>)))"

text \<open>The Remove Page button is rendered under \<open>totalPages > 1\<close>.\<close>

definition removePage_rendered :: "store \<Rightarrow> bool" where
  "removePage_rendered st \<longleftrightarrow> FormBuilder_totalPages (currentForm st) > 1"

definition cannotRemovePage :: Toast where
  "cannotRemovePage =
     \<lparr> toast_title = ''Cannot remove page'',
       toast_description = ''Remove all fields from this page first.'',
       destructive = True \<rparr>"

definition pageRemoved :: Toast where
  "pageRemoved =
     \<lparr> toast_title = ''Page removed'',
       toast_description = ''The empty page has been deleted.'',
       destructive = False \<rparr>"

text \<open>
  The body of the \<open>forEach\<close> of the Remove Page handler.  \<open>cf\<close> and \<open>page\<close> are the
  \<open>currentForm\<close> and \<open>currentPage\<close> of the render; \<open>updateField\<close> is the closure of that
  render, so every call of it starts from the fields of \<open>cf\<close>.
\<close>

definition moveDown :: "Form option \<Rightarrow> nat \<Rightarrow> nat \<Rightarrow> FormField \<Rightarrow> store \<Rightarrow> store" where
  "moveDown cf now page fld st =
     (if pageNumber fld > page
      then updateField cf now (field_id fld)
             (noFieldUpdates\<lparr>upd_pageNumber := Some (pageNumber fld - 1)\<rparr>) st
      else st)"

definition removePage_onClick :: "nat \<Rightarrow> store \<times> FormBuilder \<Rightarrow> store \<times> FormBuilder" where
  "removePage_onClick now s =
     (case s of (st, fb) \<Rightarrow>
        (let cf = currentForm st; page = fb_currentPage fb
         in if length (currentPageFields cf page) > 0
            then (st, fb\<lparr>fb_toasts := fb_toasts fb @ [cannotRemovePage]\<rparr>)
            else (fold (moveDown cf now page) (case cf of None \<Rightarrow> [] | Some c \<Rightarrow> form_fields c) st,
                  fb\<lparr> fb_currentPage := max 1 (page - 1),
                      fb_toasts := fb_toasts fb @ [pageRemoved] \<rparr>)))"

section \<open>Respondent page (src/pages/PublicForm.tsx)\<close>

subsection \<open>The regular expression of the email check\<close>

text \<open>
  Regular expressions with the constructs the pattern uses, matched by derivatives:
  \<open>test\<close> of an expression anchored at both ends holds exactly when the whole string is in
  its language.  \<open>NoneOf cs\<close> is the negated class \<open>[^...]\<close>, \<open>Plus r\<close> is \<open>r+\<close>.
\<close>

datatype regex =
  Nothing | Empty | Lit char | NoneOf "char list" | Alt regex regex | Seq regex regex
  | Star regex

definition Plus :: "regex \<Rightarrow> regex" where
  "Plus r = Seq r (Star r)"

fun nullable :: "regex \<Rightarrow> bool" where
  "nullable Nothing = False"
| "nullable Empty = True"
| "nullable (Lit c) = False"
| "nullable (NoneOf cs) = False"
| "nullable (Alt r s) = (nullable r \<or> nullable s)"
| "nullable (Seq r s) = (nullable r \<and> nullable s)"
| "nullable (Star r) = True"

fun deriv :: "char \<Rightarrow> regex \<Rightarrow> regex" where
  "deriv c Nothing = Nothing"
| "deriv c Empty = Nothing"
| "deriv c (Lit d) = (if c = d then Empty else Nothing)"
| "deriv c (NoneOf cs) = (if c \<in> set cs then Nothing else Empty)"
| "deriv c (Alt r s) = Alt (deriv c r) (deriv c s)"
| "deriv c (Seq r s) =
     (if nullable r then Alt (Seq (deriv c r) s) (deriv c s) else Seq (deriv c r) s)"
| "deriv c (Star r) = Seq (deriv c r) (Star r)"

definition regex_test :: "regex \<Rightarrow> string \<Rightarrow> bool" where
  "regex_test r s = nullable (foldl (\<lambda>r c. deriv c r) r s)"

text \<open>
  The characters \<open>\s\<close> and \<open>@\<close> of the class \<open>[^\s@]\<close>.  Strings are lists of 8-bit
  characters; of the white space of \<open>\s\<close> these are tab, line feed, vertical tab, form
  feed, carriage return, space and the no-break space.
\<close>

definition whitespace_or_at :: "char list" where
  "whitespace_or_at =
     [CHR 0x09, CHR 0x0A, CHR 0x0B, CHR 0x0C, CHR 0x0D, CHR '' '', CHR 0xA0, CHR ''@'']"

text \<open>\<open>/^[^\s@]+@[^\s@]+\.[^\s@]+$/\<close>\<close>

definition emailRegex :: regex where
  "emailRegex =
     Seq (Plus (NoneOf whitespace_or_at))
       (Seq (Lit CHR ''@'')
          (Seq (Plus (NoneOf whitespace_or_at))
             (Seq (Lit CHR ''.'') (Plus (NoneOf whitespace_or_at)))))"

subsection \<open>Answers\<close>

text \<open>\<open>answers[fieldId]\<close>: \<open>undefined\<close> for a key the object does not have.\<close>

definition answerOf :: "answers \<Rightarrow> string \<Rightarrow> answer" where
  "answerOf ans fieldId = (case map_of ans fieldId of None \<Rightarrow> Undefined | Some v \<Rightarrow> v)"

text \<open>Truthiness: \<open>undefined\<close> and the empty string are falsy, every array is truthy.\<close>

fun truthy :: "answer \<Rightarrow> bool" where
  "truthy Undefined = False"
| "truthy (Str s) = (s \<noteq> [])"
| "truthy (Strs xs) = True"

fun join :: "string list \<Rightarrow> string" where
  "join [] = []"
| "join [x] = x"
| "join (x # y # ys) = x @ '','' @ join (y # ys)"

text \<open>The conversion to a string that \<open>RegExp.prototype.test\<close> applies to its argument.\<close>

fun js_String :: "answer \<Rightarrow> string" where
  "js_String Undefined = ''undefined''"
| "js_String (Str s) = s"
| "js_String (Strs xs) = join xs"

subsection \<open>State and handlers\<close>

record PublicForm =
  pf_form :: "Form option"
  pf_answers :: answers
  pf_currentPage :: nat
  isSubmitted :: bool
  isSubmitting :: bool
  pf_errors :: "(string \<times> string) list"
  pf_toasts :: "Toast list"

text \<open>
  The initial values of the \<open>useState\<close> cells; \<open>i\<close> is the route parameter \<open>id\<close>.
  The effect that follows the first render looks the same form up again.
\<close>

definition PublicForm_mount :: "string option \<Rightarrow> store \<Rightarrow> PublicForm" where
  "PublicForm_mount i st =
     \<lparr> pf_form = getFormById (case i of None \<Rightarrow> [] | Some s \<Rightarrow> s) st,
       pf_answers = [], pf_currentPage = 1, isSubmitted = False, isSubmitting = False,
       pf_errors = [], pf_toasts = [] \<rparr>"

text \<open>
  \<open>[...new Set(form.fields.map(f => f.pageNumber))].sort()\<close>: the distinct page numbers.
  Only the length of \<open>pages\<close> is read, which the order of its elements does not change,
  so the sort is left out.
\<close>

definition pages :: "Form \<Rightarrow> nat list" where
  "pages form = remdups (map pageNumber (form_fields form))"

definition currentFields :: "Form \<Rightarrow> nat \<Rightarrow> FormField list" where
  "currentFields form page = filter (\<lambda>f. pageNumber f = page) (form_fields form)"

text \<open>\<open>pages.length || 1\<close>\<close>

definition PublicForm_totalPages :: "Form \<Rightarrow> nat" where
  "PublicForm_totalPages form = (if length (pages form) = 0 then 1 else length (pages form))"

text \<open>The body of the \<open>forEach\<close> of \<open>validateCurrentPage\<close>.\<close>

definition validateField :: "answers \<Rightarrow> FormField \<Rightarrow> (string \<times> string) list \<Rightarrow> (string \<times> string) list" where
  "validateField ans fld newErrors =
     (let a = answerOf ans (field_id fld);
          e1 = (if required fld \<and> \<not> truthy a
                then AList.update (field_id fld) (label fld @ '' is required'') newErrors
                else newErrors)
      in if field_type fld = Email \<and> truthy a
         then (if \<not> regex_test emailRegex (js_String a)
               then AList.update (field_id fld) ''Please enter a valid email address'' e1
               else e1)
         else e1)"

text \<open>The new errors and the value returned, \<open>Object.keys(newErrors).length === 0\<close>.\<close>

definition validateCurrentPage :: "Form \<Rightarrow> nat \<Rightarrow> answers \<Rightarrow> (string \<times> string) list \<times> bool" where
  "validateCurrentPage form page ans =
     (let newErrors = fold (validateField ans) (currentFields form page) []
      in (newErrors, length (map fst newErrors) = 0))"

definition handleSubmit :: "nat \<Rightarrow> Form \<Rightarrow> store \<times> PublicForm \<Rightarrow> store \<times> PublicForm" where
  "handleSubmit now form s =
     (case s of (st, pf) \<Rightarrow>
        (submitResponse now (form_id form) (pf_answers pf) None st,
         pf\<lparr>isSubmitting := True\<rparr>\<lparr>isSubmitted := True\<rparr>\<lparr>isSubmitting := False\<rparr>))"

definition fillRequired :: Toast where
  "fillRequired =
     \<lparr> toast_title = ''Please fill in required fields'',
       toast_description = ''Some fields need your attention.'',
       destructive = True \<rparr>"

definition handleNext :: "nat \<Rightarrow> Form \<Rightarrow> store \<times> PublicForm \<Rightarrow> store \<times> PublicForm" where
  "handleNext now form s =
     (case s of (st, pf) \<Rightarrow>
        (case validateCurrentPage form (pf_currentPage pf) (pf_answers pf) of
           (newErrors, valid) \<Rightarrow>
             (let pf1 = pf\<lparr>pf_errors := newErrors\<rparr>
              in if valid
                 then (if pf_currentPage pf < PublicForm_totalPages form
                       then (st, pf1\<lparr>pf_currentPage := pf_currentPage pf + 1\<rparr>)
                       else handleSubmit now form (st, pf1))
                 else (st, pf1\<lparr>pf_toasts := pf_toasts pf @ [fillRequired]\<rparr>))))"

definition handlePrev :: "PublicForm \<Rightarrow> PublicForm" where
  "handlePrev pf =
     (if pf_currentPage pf > 1 then pf\<lparr>pf_currentPage := pf_currentPage pf - 1\<rparr> else pf)"

definition updateAnswer :: "string \<Rightarrow> answer \<Rightarrow> PublicForm \<Rightarrow> PublicForm" where
  "updateAnswer fieldId v pf =
     pf\<lparr> pf_answers := AList.update fieldId v (pf_answers pf),
         pf_errors :=
           (case map_of (pf_errors pf) fieldId of
              Some e \<Rightarrow> if e \<noteq> [] then AList.delete fieldId (pf_errors pf) else pf_errors pf
            | None \<Rightarrow> pf_errors pf) \<rparr>"

text \<open>
  What the component returns: the not-found message, the unavailable message, the
  thank-you message, or the page of fields with its Previous and Next buttons.  The early
  returns come in this order, before the fields and the handlers are made.
\<close>

datatype view = FormNotFound | FormUnavailable | ThankYou | Filling nat

definition render :: "PublicForm \<Rightarrow> view" where
  "render pf =
     (case pf_form pf of
        None \<Rightarrow> FormNotFound
      | Some form \<Rightarrow>
          if status form = Inactive then FormUnavailable
          else if isSubmitted pf then ThankYou
          else Filling (pf_currentPage pf))"

text \<open>
  What a respondent can do.  The inputs and the buttons exist in the view of a page only;
  Previous is disabled on page 1 and Next while submitting.
\<close>

datatype action = ClickNext | ClickPrevious | Enter string answer

definition respond :: "nat \<Rightarrow> action \<Rightarrow> store \<times> PublicForm \<Rightarrow> store \<times> PublicForm" where
  "respond now a s =
     (case s of (st, pf) \<Rightarrow>
        (case (render pf, pf_form pf) of
           (Filling page, Some form) \<Rightarrow>
             (case a of
                ClickNext \<Rightarrow> if isSubmitting pf then s else handleNext now form s
              | ClickPrevious \<Rightarrow> if pf_currentPage pf = 1 then s else (st, handlePrev pf)
              | Enter fieldId v \<Rightarrow> (st, updateAnswer fieldId v pf))
         | _ \<Rightarrow> s))"

text \<open>A session: actions, each at its reading of the clock, from left to right.\<close>

definition session :: "(nat \<times> action) list \<Rightarrow> store \<times> PublicForm \<Rightarrow> store \<times> PublicForm" where
  "session acts s = fold (\<lambda>(now, a). respond now a) acts s"

section \<open>Forms and states for evaluation\<close>

text \<open>
  An active form with the given identifier and fields, and the store of a builder session
  that edits a form: the form is in the collection and is the current form.
\<close>

definition exampleForm :: "string \<Rightarrow> FormField list \<Rightarrow> Form" where
  "exampleForm i fs =
     \<lparr> form_id = i, title = ''Survey'', description = None, status = Active,
       form_fields = fs, settings = mockSettings ''Thank you!'',
       createdBy = ''1'', createdAt = 1705800000000, updatedAt = 1705800000000 \<rparr>"

definition editing :: "Form \<Rightarrow> store" where
  "editing f = \<lparr> forms = mockForms @ [f], currentForm = Some f, responses = mockResponses \<rparr>"

definition onPage :: "nat \<Rightarrow> FormBuilder" where
  "onPage p = \<lparr> fb_currentPage = p, selectedFieldId = None, fb_toasts = [] \<rparr>"

text \<open>Fields on pages 1 and 3, none on page 2.\<close>

definition gapForm :: Form where
  "gapForm =
     exampleForm ''4'' [field ''a'' Text ''Name'' False 1, field ''c'' Text ''City'' True 3]"

text \<open>One field on page 1, two on page 3, none on page 2.\<close>

definition threePageForm :: Form where
  "threePageForm =
     exampleForm ''5''
       [field ''a'' Text ''Name'' False 1, field ''b'' Text ''Street'' False 3,
        field ''c'' Text ''City'' False 3]"

text \<open>A required group of checkboxes.\<close>

definition checkboxForm :: Form where
  "checkboxForm =
     exampleForm ''6''
       [(field ''c1'' Checkbox ''Toppings'' True 1)
          \<lparr> options := Some
              [ \<lparr> option_id = ''opt1'', option_label = ''Option 1'', option_value = ''option1'' \<rparr>,
                \<lparr> option_id = ''opt2'', option_label = ''Option 2'', option_value = ''option2'' \<rparr> ] \<rparr>]"

text \<open>The store after one submission at the clock reading 1705800000000.\<close>

definition submittedOnce :: store where
  "submittedOnce = submitResponse 1705800000000 ''1'' [(''f1'', Str ''Ann'')] None initialStore"

text \<open>The store in which a form is published next to the mock forms.\<close>

definition published :: "Form \<Rightarrow> store" where
  "published f = \<lparr> forms = mockForms @ [f], currentForm = None, responses = mockResponses \<rparr>"

text \<open>
  A respondent opens the form of checkboxes, ticks the first option, unticks it again,
  which leaves the empty list as the answer, and clicks Next.
\<close>

definition untickedSession :: "store \<times> PublicForm" where
  "untickedSession =
     session
       [(1705800000000, Enter ''c1'' (Strs [''option1''])),
        (1705800001000, Enter ''c1'' (Strs [])),
        (1705800002000, ClickNext)]
       (published checkboxForm, PublicForm_mount (Some ''6'') (published checkboxForm))"

text \<open>A respondent opens the form with no field on page 2 and clicks Next twice.\<close>

definition gapSession :: "store \<times> PublicForm" where
  "gapSession =
     session [(1705800000000, ClickNext), (1705800001000, ClickNext)]
       (published gapForm, PublicForm_mount (Some ''4'') (published gapForm))"

section \<open>The language of an expression and the email shape of the specification\<close>

text \<open>The language of an expression: the strings it matches as a whole.\<close>

inductive_set star :: "string set \<Rightarrow> string set" for A :: "string set" where
  star_empty: "[] \<in> star A"
| star_step: "u \<in> A \<Longrightarrow> v \<in> star A \<Longrightarrow> u @ v \<in> star A"

fun lang :: "regex \<Rightarrow> string set" where
  "lang Nothing = {}"
| "lang Empty = {[]}"
| "lang (Lit c) = {[c]}"
| "lang (NoneOf cs) = {[c] | c. c \<notin> set cs}"
| "lang (Alt r s) = lang r \<union> lang s"
| "lang (Seq r s) = {u @ v | u v. u \<in> lang r \<and> v \<in> lang s}"
| "lang (Star r) = star (lang r)"

text \<open>
  The shape in the words of the specification: a local part, \<open>@\<close>, and a domain with at
  least one \<open>.\<close> in it, where the local part and the two parts of the domain around that
  \<open>.\<close> are non-empty and have neither white space nor \<open>@\<close> in them.
\<close>

definition email_part :: "string \<Rightarrow> bool" where
  "email_part w \<longleftrightarrow> w \<noteq> [] \<and> set w \<inter> set whitespace_or_at = {}"

definition email_shape :: "string \<Rightarrow> bool" where
  "email_shape s \<longleftrightarrow>
     (\<exists>local b c. s = local @ ''@'' @ b @ ''.'' @ c \<and> email_part local \<and> email_part b \<and> email_part c)"

section \<open>Properties of the store\<close>

lemma status_partition:
  "length (filter (\<lambda>f. status f = Active) fs) + length (filter (\<lambda>f. status f = Inactive) fs)
     = length fs"
proof (induction fs)
  case Nil
  show ?case by simp
next
  case (Cons f fs)
  then show ?case by (cases "status f") simp_all
qed

lemma stats_inv:
  "activeForms (stats st) + inactiveForms (stats st) = totalForms (stats st)
   \<and> totalResponses (stats st) = length (responses st)"
  by (simp add: stats_def status_partition)

text \<open>
  Claim C10.  The statistics are computed from the store at every render, so in every
  state of the store, and hence after every operation on it: the counts of the active and
  of the inactive forms are those of the forms with that status, they add up to the count
  of all forms, since a status is one of the two and not both, and the count of the
  responses is the number of stored responses.
\<close>

theorem stats_partition_forms:
  "totalForms (stats st) = length (forms st)
   \<and> activeForms (stats st) = length (filter (\<lambda>f. status f = Active) (forms st))
   \<and> inactiveForms (stats st) = length (filter (\<lambda>f. status f = Inactive) (forms st))
   \<and> activeForms (stats st) + inactiveForms (stats st) = totalForms (stats st)
   \<and> totalResponses (stats st) = length (responses st)
   \<and> (status f = Active) \<noteq> (status f = Inactive)
   \<and> (case apply_op now op st of
         None \<Rightarrow> True
       | Some st' \<Rightarrow>
           activeForms (stats st') + inactiveForms (stats st') = totalForms (stats st')
           \<and> totalResponses (stats st') = length (responses st'))"
proof -
  have "(status f = Active) \<noteq> (status f = Inactive)"
    by (cases "status f") simp_all
  moreover have "totalForms (stats st) = length (forms st)"
    "activeForms (stats st) = length (filter (\<lambda>f. status f = Active) (forms st))"
    "inactiveForms (stats st) = length (filter (\<lambda>f. status f = Inactive) (forms st))"
    by (simp_all add: stats_def)
  ultimately show ?thesis
    using stats_inv [of st] stats_inv [of "the (apply_op now op st)"]
    by (auto split: option.split)
qed

text \<open>
  Claim C9.  \<open>deleteForm\<close> keeps, in their order, exactly the forms whose identifier is
  not the given one, so every form with another identifier stays as it was; the reference to
  the current form becomes null when it pointed at the deleted form and is untouched
  otherwise; the responses, those of the deleted form included, are untouched.
\<close>

theorem deleteForm_frame:
  "forms (deleteForm (currentForm st) fid st) = filter (\<lambda>f. form_id f \<noteq> fid) (forms st)
   \<and> set (forms (deleteForm (currentForm st) fid st)) = set (forms st) - {f. form_id f = fid}
   \<and> currentForm (deleteForm (currentForm st) fid st)
       = (case currentForm st of
            None \<Rightarrow> None
          | Some c \<Rightarrow> if form_id c = fid then None else Some c)
   \<and> responses (deleteForm (currentForm st) fid st) = responses st"
  by (auto simp: deleteForm_def split: option.splits)

subsection \<open>Decimal strings\<close>

lemma toString_nonempty: "toString n \<noteq> []"
  by (subst toString.simps) simp

lemma digit_inj: "a < 10 \<Longrightarrow> b < 10 \<Longrightarrow> digit a = digit b \<Longrightarrow> a = b"
  by (simp add: digit_def char_of_eq_iff take_bit_nat_eq_self)

lemma toString_small: "n < 10 \<Longrightarrow> toString n = [digit n]"
  by (subst toString.simps) simp

lemma toString_large: "\<not> n < 10 \<Longrightarrow> toString n = toString (n div 10) @ [digit (n mod 10)]"
  by (subst toString.simps) simp

lemma toString_inj: "toString a = toString b \<Longrightarrow> a = b"
proof (induction a arbitrary: b rule: toString.induct)
  case (1 n)
  show ?case
  proof (cases "n < 10")
    case True
    have "b < 10"
    proof (rule ccontr)
      assume "\<not> b < 10"
      then show False
        using "1.prems" True toString_nonempty [of "b div 10"]
        by (simp add: toString_small toString_large)
    qed
    with True "1.prems" show ?thesis
      by (simp add: toString_small digit_inj)
  next
    case False
    have nb: "\<not> b < 10"
    proof
      assume "b < 10"
      then show False
        using "1.prems" False toString_nonempty [of "n div 10"]
        by (simp add: toString_small toString_large)
    qed
    from False nb "1.prems"
    have "toString (n div 10) = toString (b div 10)" and "digit (n mod 10) = digit (b mod 10)"
      by (simp_all add: toString_large)
    then have "n div 10 = b div 10" and "n mod 10 = b mod 10"
      using "1.IH" [OF False] by (simp_all add: digit_inj)
    then show ?thesis
      by (metis div_mult_mod_eq)
  qed
qed

subsection \<open>Splicing\<close>

lemma take_drop_mset:
  "i < length xs \<Longrightarrow> mset (take i xs @ drop (Suc i) xs) + {#xs ! i#} = mset xs"
  using id_take_nth_drop [of i xs]
  by (metis add_mset_add_single mset.simps(2) mset_append union_mset_add_mset_right)

lemma splice_insert_mset: "mset (splice_insert j x ys) = add_mset x (mset ys)"
  unfolding splice_insert_def
  by (metis append_take_drop_id mset.simps(2) mset_append union_mset_add_mset_right
      append_Cons append_Nil)

lemma splice_insert_nth: "j \<le> length ys \<Longrightarrow> splice_insert j x ys ! j = x"
  by (simp add: splice_insert_def nth_append)

lemma splice_remove_insert:
  "j \<le> length ys \<Longrightarrow> splice_remove j (splice_insert j x ys) = (Some x, ys)"
  by (simp add: splice_remove_def splice_insert_def nth_append min_def)

lemma splice_insert_remove:
  "i < length xs \<Longrightarrow> splice_insert i (xs ! i) (take i xs @ drop (Suc i) xs) = xs"
  using id_take_nth_drop [of i xs] by (simp add: splice_insert_def min_def)

lemma reorder_move:
  assumes "i < length xs" and "j < length xs"
  shows "case reorder i j xs of
           None \<Rightarrow> False
         | Some ys \<Rightarrow>
             mset ys = mset xs \<and> length ys = length xs \<and> ys ! j = xs ! i
             \<and> snd (splice_remove j ys) = snd (splice_remove i xs)
             \<and> reorder j i ys = Some xs"
proof -
  let ?r = "take i xs @ drop (Suc i) xs"
  let ?ys = "splice_insert j (xs ! i) ?r"
  have r: "splice_remove i xs = (Some (xs ! i), ?r)"
    using assms by (simp add: splice_remove_def)
  have lr: "j \<le> length ?r"
    using assms by simp
  have e: "reorder i j xs = Some ?ys"
    by (simp add: reorder_def r)
  have m: "mset ?ys = mset xs"
    using take_drop_mset [OF assms(1)] by (simp add: splice_insert_mset)
  have l: "length ?ys = length xs"
    using m by (metis size_mset)
  have n: "?ys ! j = xs ! i"
    using lr by (rule splice_insert_nth)
  have b: "splice_remove j ?ys = (Some (xs ! i), ?r)"
    using lr by (rule splice_remove_insert)
  have "splice_insert i (xs ! i) ?r = xs"
    using assms(1) by (rule splice_insert_remove)
  then have inv: "reorder j i ?ys = Some xs"
    by (simp add: reorder_def b)
  show ?thesis
    using m l n inv by (simp add: e b r)
qed

subsection \<open>The current form under \<open>updateForm\<close>\<close>

lemma updateForm_currentForm:
  "currentForm st = Some c \<Longrightarrow>
   currentForm (updateForm (Some c) now (form_id c) u st) = Some (mergeForm now c u)"
  by (simp add: updateForm_def)

lemma mergeForm_fields:
  "form_fields (mergeForm now c (noFormUpdates\<lparr>upd_fields := Some fs\<rparr>)) = fs"
  by (simp add: mergeForm_def spread_def)

text \<open>
  Claim C7, as the code has it.  For every form identifier, known to the store or not,
  and all answers and files, \<open>submitResponse\<close> appends exactly one response with that
  form identifier, these answers and files and the clock reading as its time, looks at
  neither the forms nor the answers, and leaves the forms and the current form as they
  are.  The identifier of the response is the decimal string of the clock reading: it
  differs from the identifier given at any other reading of the clock.
\<close>

theorem submitResponse_appends:
  "submitResponse now fid ans fls st =
     st\<lparr>responses := responses st @
          [\<lparr> response_id = toString now, formId = fid, response_answers = ans, files = fls,
              submittedAt = now \<rparr>]\<rparr>
   \<and> forms (submitResponse now fid ans fls st) = forms st
   \<and> currentForm (submitResponse now fid ans fls st) = currentForm st
   \<and> length (responses (submitResponse now fid ans fls st)) = Suc (length (responses st))
   \<and> (now' \<noteq> now \<longrightarrow> toString now' \<noteq> toString now)"
  using toString_inj [of now' now] by (auto simp: submitResponse_def)

theorem submitResponse_appends_witness:
  "submitResponse 1705800000001 ''no-such-form'' [(''f3'', Str ''not-an-email'')] None submittedOnce =
     submittedOnce\<lparr>responses := responses submittedOnce @
          [\<lparr> response_id = toString 1705800000001, formId = ''no-such-form'',
              response_answers = [(''f3'', Str ''not-an-email'')], files = None,
              submittedAt = 1705800000001 \<rparr>]\<rparr>
   \<and> getFormById ''no-such-form'' submittedOnce = None
   \<and> (1705800000000::nat) \<noteq> 1705800000001
   \<and> toString 1705800000000 \<noteq> toString 1705800000001"
proof -
  have "getFormById ''no-such-form'' submittedOnce = None"
    by (simp add: getFormById_def submittedOnce_def submitResponse_def initialStore_def mockForms_def)
  then show ?thesis
    using submitResponse_appends [of 1705800000001 "''no-such-form''"
        "[(''f3'', Str ''not-an-email'')]" None submittedOnce 1705800000000]
    by simp
qed

text \<open>
  Claim C7 as stated asks for a fresh identifier.  A second submission at the same clock
  reading gets the identifier of the first: the identifier of the new response is among
  those of the responses the store already holds.
\<close>

theorem submitResponse_id_not_fresh:
  "response_id (last (responses (submitResponse 1705800000000 ''2'' [] None submittedOnce)))
     \<in> response_id ` set (responses submittedOnce)"
  by (simp add: submitResponse_def submittedOnce_def)

lemma reorderFields_ok:
  assumes "currentForm st = Some c" and "reorder i j (form_fields c) = Some ys"
  shows "\<exists>st'. reorderFields (currentForm st) now i j st = Some st' \<and>
     currentForm st' = Some (mergeForm now c (noFormUpdates\<lparr>upd_fields := Some ys\<rparr>))"
  using assms by (simp add: reorderFields_def updateForm_currentForm)

text \<open>
  Claim C4.  For the fields of the current form and two positions \<open>i\<close> and \<open>j\<close> in
  them, \<open>reorderFields i j\<close> leaves the current form with the same fields as a multiset,
  the field that was at \<open>i\<close> now at \<open>j\<close>, and the other fields in the order they had
  (taking the moved field out of the new and of the old sequence gives the same
  sequence); \<open>reorderFields j i\<close> after it restores the sequence.
\<close>

theorem reorderFields_single_move:
  assumes "currentForm st = Some c"
    and "i < length (form_fields c)" and "j < length (form_fields c)"
  shows "case reorderFields (currentForm st) now i j st of
           None \<Rightarrow> False
         | Some st' \<Rightarrow>
             (case currentForm st' of
                None \<Rightarrow> False
              | Some c' \<Rightarrow>
                  reorder i j (form_fields c) = Some (form_fields c')
                  \<and> mset (form_fields c') = mset (form_fields c)
                  \<and> form_fields c' ! j = form_fields c ! i
                  \<and> snd (splice_remove j (form_fields c')) = snd (splice_remove i (form_fields c))
                  \<and> reorder j i (form_fields c') = Some (form_fields c)
                  \<and> (case reorderFields (currentForm st') now' j i st' of
                        None \<Rightarrow> False
                      | Some st'' \<Rightarrow>
                          map_option form_fields (currentForm st'') = Some (form_fields c)))"
proof -
  obtain ys where ys: "reorder i j (form_fields c) = Some ys"
    using reorder_move [OF assms(2,3)] by (auto split: option.splits)
  have facts: "mset ys = mset (form_fields c)" "ys ! j = form_fields c ! i"
    "snd (splice_remove j ys) = snd (splice_remove i (form_fields c))"
    "reorder j i ys = Some (form_fields c)"
    using reorder_move [OF assms(2,3)] by (simp_all add: ys)
  let ?c' = "mergeForm now c (noFormUpdates\<lparr>upd_fields := Some ys\<rparr>)"
  obtain st' where st': "reorderFields (currentForm st) now i j st = Some st'"
    "currentForm st' = Some ?c'"
    using reorderFields_ok [OF assms(1) ys] by blast
  have f': "form_fields ?c' = ys" by (rule mergeForm_fields)
  obtain st'' where st'': "reorderFields (currentForm st') now' j i st' = Some st''"
    "currentForm st'' = Some (mergeForm now' ?c' (noFormUpdates\<lparr>upd_fields := Some (form_fields c)\<rparr>))"
    using reorderFields_ok [OF st'(2), of j i "form_fields c"] facts(4) f' by auto
  show ?thesis
    using facts st''(1) by (simp add: st' st''(2) f' ys mergeForm_fields)
qed

theorem reorderFields_single_move_witness:
  "reorder 0 2 (map field_id (form_fields threePageForm)) = Some [''b'', ''c'', ''a'']
   \<and> currentForm (editing threePageForm) = Some threePageForm
   \<and> (0::nat) < length (form_fields threePageForm) \<and> (2::nat) < length (form_fields threePageForm)
   \<and> (case reorderFields (currentForm (editing threePageForm)) 1705800000000 0 2
              (editing threePageForm) of
         None \<Rightarrow> False
       | Some st' \<Rightarrow>
           (case currentForm st' of
              None \<Rightarrow> False
            | Some c' \<Rightarrow>
                reorder 0 2 (form_fields threePageForm) = Some (form_fields c')
                \<and> mset (form_fields c') = mset (form_fields threePageForm)
                \<and> form_fields c' ! 2 = form_fields threePageForm ! 0
                \<and> snd (splice_remove 2 (form_fields c'))
                    = snd (splice_remove 0 (form_fields threePageForm))
                \<and> reorder 2 0 (form_fields c') = Some (form_fields threePageForm)
                \<and> (case reorderFields (currentForm st') 1705800001000 2 0 st' of
                      None \<Rightarrow> False
                    | Some st'' \<Rightarrow>
                        map_option form_fields (currentForm st'')
                          = Some (form_fields threePageForm))))"
proof -
  have c: "currentForm (editing threePageForm) = Some threePageForm"
    by (simp add: editing_def)
  have i: "(0::nat) < length (form_fields threePageForm)"
    and j: "(2::nat) < length (form_fields threePageForm)"
    by (simp_all add: threePageForm_def exampleForm_def)
  have e: "reorder 0 2 (map field_id (form_fields threePageForm)) = Some [''b'', ''c'', ''a'']"
    by (simp add: threePageForm_def exampleForm_def field_def reorder_def splice_remove_def
        splice_insert_def)
  show ?thesis
    using e c i j
      reorderFields_single_move [OF c i j, where now = 1705800000000 and now' = 1705800001000]
    by blast
qed

section \<open>Properties of the builder page\<close>

lemma FormBuilder_totalPages_empty:
  "FormBuilder_totalPages None = 1"
  "form_fields c = [] \<Longrightarrow> FormBuilder_totalPages (Some c) = 1"
  by (simp_all add: FormBuilder_totalPages_def)

lemma FormBuilder_totalPages_max:
  assumes "form_fields c \<noteq> []" and "\<forall>f \<in> set (form_fields c). 1 \<le> pageNumber f"
  shows "FormBuilder_totalPages (Some c) = Max (pageNumber ` set (form_fields c))"
proof -
  let ?P = "pageNumber ` set (form_fields c)"
  have ne: "?P \<noteq> {}" and fin: "finite ?P" using assms(1) by simp_all
  have "1 \<le> Max ?P"
    using assms ne fin by (metis Max_in imageE)
  then have "Max (insert 1 ?P) = Max ?P"
    using ne fin by (simp add: max_def)
  then show ?thesis using assms(1) by (simp add: FormBuilder_totalPages_def)
qed

lemma PublicForm_totalPages_card:
  "PublicForm_totalPages form =
     (if form_fields form = [] then 1 else card (pageNumber ` set (form_fields form)))"
  by (simp add: PublicForm_totalPages_def pages_def length_remdups_card_conv)

text \<open>
  Where the page numbers of a form are 1 up to some \<open>n\<close> with none left out, the two
  page counts agree; the respondent page counts the distinct page numbers.
\<close>

lemma totalPages_agree:
  assumes "pageNumber ` set (form_fields form) = {1..n}" and "1 \<le> n"
  shows "FormBuilder_totalPages (Some form) = n" and "PublicForm_totalPages form = n"
proof -
  have ne: "form_fields form \<noteq> []"
    using assms by auto
  have "\<forall>f \<in> set (form_fields form). 1 \<le> pageNumber f"
    using assms(1) by auto
  then show "FormBuilder_totalPages (Some form) = n"
    using FormBuilder_totalPages_max [OF ne] assms by (simp add: Max_eq_iff)
  show "PublicForm_totalPages form = n"
    using ne assms by (simp add: PublicForm_totalPages_card)
qed

text \<open>
  Claim C1, evaluated on a form with fields on pages 1 and 3 and none on page 2, which
  the builder produces when the last field of page 2 is removed.  The largest page
  number is 3 and the builder counts 3 pages; the respondent page counts 2.
\<close>

theorem totalPages_gap:
  "Max (pageNumber ` set (form_fields gapForm)) = 3
   \<and> FormBuilder_totalPages (Some gapForm) = 3
   \<and> PublicForm_totalPages gapForm = 2"
  by (simp add: gapForm_def exampleForm_def field_def FormBuilder_totalPages_def
      PublicForm_totalPages_def pages_def)

text \<open>
  On that form the respondent page submits from page 2: the required field on page 3 is
  never shown and the response has no answer for it.
\<close>

theorem gap_page_never_shown:
  "map (\<lambda>f. (pageNumber f, required f)) (form_fields gapForm) = [(1, False), (3, True)]
   \<and> render (snd gapSession) = ThankYou
   \<and> pf_answers (snd gapSession) = []"
  by (simp add: gapSession_def session_def respond_def published_def gapForm_def
      exampleForm_def field_def PublicForm_mount_def getFormById_def mockForms_def
      handleNext_def validateCurrentPage_def validateField_def currentFields_def
      answerOf_def PublicForm_totalPages_def pages_def handleSubmit_def submitResponse_def
      render_def Let_def)

text \<open>
  Claim C3.  Remove Page on a page that has a field shows the toast \<open>Cannot remove page\<close>
  and changes nothing else: the store, with the fields, their page numbers and
  the page count derived from them, and the active page are as before.
\<close>

theorem removePage_rejected:
  assumes "currentPageFields (currentForm st) (fb_currentPage fb) \<noteq> []"
  shows "removePage_onClick now (st, fb) = (st, fb\<lparr>fb_toasts := fb_toasts fb @ [cannotRemovePage]\<rparr>)
    \<and> fst (removePage_onClick now (st, fb)) = st
    \<and> FormBuilder_totalPages (currentForm (fst (removePage_onClick now (st, fb))))
        = FormBuilder_totalPages (currentForm st)
    \<and> fb_currentPage (snd (removePage_onClick now (st, fb))) = fb_currentPage fb
    \<and> last (fb_toasts (snd (removePage_onClick now (st, fb)))) =
         \<lparr> toast_title = ''Cannot remove page'',
           toast_description = ''Remove all fields from this page first.'',
           destructive = True \<rparr>"
  using assms by (simp add: removePage_onClick_def Let_def cannotRemovePage_def)

theorem removePage_rejected_witness:
  "currentPageFields (currentForm (editing threePageForm)) (fb_currentPage (onPage 3)) \<noteq> []
   \<and> removePage_rendered (editing threePageForm)
   \<and> removePage_onClick 1705800000000 (editing threePageForm, onPage 3)
     = (editing threePageForm, (onPage 3)\<lparr>fb_toasts := [cannotRemovePage]\<rparr>)"
proof -
  have h: "currentPageFields (currentForm (editing threePageForm)) (fb_currentPage (onPage 3)) \<noteq> []"
    by (simp add: currentPageFields_def editing_def threePageForm_def exampleForm_def field_def
        onPage_def)
  have r: "removePage_rendered (editing threePageForm)"
    by (simp add: removePage_rendered_def FormBuilder_totalPages_def editing_def
        threePageForm_def exampleForm_def field_def)
  have "fb_toasts (onPage 3) = []" by (simp add: onPage_def)
  then show ?thesis
    using h r removePage_rejected [OF h, of 1705800000000] by simp
qed

text \<open>
  What the Remove Page handler does in general.  Every call of \<open>updateField\<close> maps over the
  fields of the render and replaces the fields of the current form by the result, so the
  calls do not add up: after the loop the fields are those of the render with the page
  number lowered only on the last field above the page (and on the fields that share its
  identifier).
\<close>

lemma moveDown_last_wins:
  assumes "currentForm st = Some p"
  shows "map_option form_fields (currentForm (fold (moveDown (Some c) now page) fs st)) =
     Some (case filter (\<lambda>f. page < pageNumber f) fs of
             [] \<Rightarrow> form_fields p
           | x # xs \<Rightarrow>
               map (\<lambda>f. if field_id f = field_id (last (x # xs))
                        then mergeField f
                               (noFieldUpdates\<lparr>upd_pageNumber := Some (pageNumber (last (x # xs)) - 1)\<rparr>)
                        else f)
                 (form_fields c))"
  using assms
proof (induction fs arbitrary: st p)
  case Nil
  then show ?case by simp
next
  case (Cons g gs)
  show ?case
  proof (cases "page < pageNumber g")
    case False
    then show ?thesis
      using Cons.IH [OF Cons.prems] by (simp add: moveDown_def)
  next
    case True
    let ?u = "noFormUpdates\<lparr>upd_fields := Some
        (map (\<lambda>f. if field_id f = field_id g
                  then mergeField f (noFieldUpdates\<lparr>upd_pageNumber := Some (pageNumber g - 1)\<rparr>)
                  else f) (form_fields c))\<rparr>"
    let ?st = "moveDown (Some c) now page g st"
    have st: "currentForm ?st = Some (mergeForm now p ?u)"
      using True Cons.prems
      by (simp add: moveDown_def updateField_def updateForm_def Let_def del: One_nat_def)
    note IH = Cons.IH [OF st]
    show ?thesis
    proof (cases "filter (\<lambda>f. page < pageNumber f) gs")
      case Nil
      then show ?thesis
        using IH True by (simp add: mergeForm_fields del: One_nat_def cong: if_cong)
    next
      case (Cons y ys)
      then show ?thesis
        using IH True by (simp del: One_nat_def cong: if_cong)
    qed
  qed
qed

text \<open>
  Claim C2, evaluated on a form with one field on page 1, two fields on page 3 and none
  on page 2, with page 2 active.  Remove Page lowers the page number of the last field
  only: the page numbers are 1, 3, 2 afterwards, and the page count is 3 as before.
\<close>

theorem removePage_stale:
  "removePage_rendered (editing threePageForm)
   \<and> currentPageFields (currentForm (editing threePageForm)) 2 = []
   \<and> FormBuilder_totalPages (currentForm (editing threePageForm)) = 3
   \<and> map_option (\<lambda>c. map pageNumber (form_fields c))
       (currentForm (fst (removePage_onClick 1705800000000 (editing threePageForm, onPage 2))))
       = Some [1, 3, 2]
   \<and> FormBuilder_totalPages
       (currentForm (fst (removePage_onClick 1705800000000 (editing threePageForm, onPage 2)))) = 3"
  by (simp add: removePage_rendered_def FormBuilder_totalPages_def editing_def
      threePageForm_def exampleForm_def field_def currentPageFields_def removePage_onClick_def
      onPage_def moveDown_def updateField_def updateForm_def mergeForm_def mergeField_def
      spread_def noFormUpdates_def noFieldUpdates_def Let_def)

section \<open>Properties of the respondent page\<close>

subsection \<open>The email expression\<close>

lemma nullable_lang: "nullable r \<longleftrightarrow> [] \<in> lang r"
  by (induction r) (auto intro: star_empty)

lemma star_cons:
  "c # w \<in> star A \<longleftrightarrow> (\<exists>u v. w = u @ v \<and> c # u \<in> A \<and> v \<in> star A)"
proof
  assume "c # w \<in> star A"
  then show "\<exists>u v. w = u @ v \<and> c # u \<in> A \<and> v \<in> star A"
  proof (induction "c # w" arbitrary: w rule: star.induct)
    case (star_step u v)
    show ?case
    proof (cases u)
      case Nil
      with star_step show ?thesis by simp
    next
      case (Cons d u')
      with star_step.hyps have "w = u' @ v" "c # u' \<in> A" "v \<in> star A"
        by simp_all
      then show ?thesis by blast
    qed
  qed
next
  assume "\<exists>u v. w = u @ v \<and> c # u \<in> A \<and> v \<in> star A"
  then obtain u v where "w = u @ v" "c # u \<in> A" "v \<in> star A"
    by blast
  then show "c # w \<in> star A"
    using star_step [of "c # u" A v] by simp
qed

lemma deriv_lang: "lang (deriv c r) = {w. c # w \<in> lang r}"
proof (induction r)
  case (Seq r s)
  have "{w. c # w \<in> lang (Seq r s)} =
          {u @ v | u v. c # u \<in> lang r \<and> v \<in> lang s} \<union> (if [] \<in> lang r then {w. c # w \<in> lang s} else {})"
    by (auto simp: Cons_eq_append_conv)
  with Seq show ?case
    by (auto simp: nullable_lang)
next
  case (Star r)
  then show ?case
    by (auto simp: star_cons)
qed auto

lemma regex_test_lang: "regex_test r s \<longleftrightarrow> s \<in> lang r"
  unfolding regex_test_def
  by (induction s arbitrary: r) (simp_all add: nullable_lang deriv_lang)

lemma star_NoneOf: "star (lang (NoneOf cs)) = {w. set w \<inter> set cs = {}}"
proof (intro set_eqI iffI)
  fix w
  assume "w \<in> star (lang (NoneOf cs))"
  then show "w \<in> {w. set w \<inter> set cs = {}}"
    by (induction rule: star.induct) auto
next
  fix w
  assume "w \<in> {w. set w \<inter> set cs = {}}"
  then show "w \<in> star (lang (NoneOf cs))"
  proof (induction w)
    case Nil
    show ?case by (rule star_empty)
  next
    case (Cons c w)
    then have "[c] \<in> lang (NoneOf cs)" and "w \<in> star (lang (NoneOf cs))"
      by auto
    then show ?case
      using star_step [of "[c]" "lang (NoneOf cs)" w] by simp
  qed
qed

lemma lang_Plus_NoneOf:
  "w \<in> lang (Plus (NoneOf cs)) \<longleftrightarrow> w \<noteq> [] \<and> set w \<inter> set cs = {}"
proof (cases w)
  case Nil
  then show ?thesis by (simp add: Plus_def)
next
  case (Cons c v)
  have "c # v \<in> lang (Plus (NoneOf cs)) \<longleftrightarrow> c \<notin> set cs \<and> v \<in> star (lang (NoneOf cs))"
  proof
    assume "c # v \<in> lang (Plus (NoneOf cs))"
    then obtain u v' where "c # v = u @ v'" and "u \<in> lang (NoneOf cs)"
      and "v' \<in> lang (Star (NoneOf cs))"
      unfolding Plus_def lang.simps(6) by blast
    then show "c \<notin> set cs \<and> v \<in> star (lang (NoneOf cs))"
      by auto
  next
    assume a: "c \<notin> set cs \<and> v \<in> star (lang (NoneOf cs))"
    then have "[c] \<in> lang (NoneOf cs)" and "v \<in> lang (Star (NoneOf cs))"
      by simp_all
    then have "[c] @ v \<in> lang (Seq (NoneOf cs) (Star (NoneOf cs)))"
      unfolding lang.simps(6) by blast
    then show "c # v \<in> lang (Plus (NoneOf cs))"
      by (simp add: Plus_def)
  qed
  then show ?thesis
    unfolding star_NoneOf Cons by simp
qed

lemma lang_Seq_iff:
  "w \<in> lang (Seq r s) \<longleftrightarrow> (\<exists>u v. w = u @ v \<and> u \<in> lang r \<and> v \<in> lang s)"
  by auto

lemma lang_part: "w \<in> lang (Plus (NoneOf whitespace_or_at)) \<longleftrightarrow> email_part w"
  by (simp add: lang_Plus_NoneOf email_part_def)

lemma emailRegex_shape: "regex_test emailRegex s \<longleftrightarrow> email_shape s"
proof -
  have "s \<in> lang emailRegex \<longleftrightarrow>
     (\<exists>l v. s = l @ v \<and> email_part l \<and>
        (\<exists>v'. v = ''@'' @ v' \<and>
           (\<exists>b v''. v' = b @ v'' \<and> email_part b \<and>
              (\<exists>c. v'' = ''.'' @ c \<and> email_part c))))"
    unfolding emailRegex_def lang_Seq_iff lang_part by simp
  also have "\<dots> \<longleftrightarrow> email_shape s"
    unfolding email_shape_def by (simp add: ex_simps [symmetric] del: ex_simps)
  finally show ?thesis
    by (simp add: regex_test_lang)
qed

subsection \<open>Validation of a page\<close>

lemma validateField_lookup:
  "map_of (validateField ans fld errs) k =
     (if k = field_id fld
      then (if field_type fld = Email \<and> truthy (answerOf ans k)
               \<and> \<not> regex_test emailRegex (js_String (answerOf ans k))
            then Some ''Please enter a valid email address''
            else if required fld \<and> \<not> truthy (answerOf ans k)
            then Some (label fld @ '' is required'')
            else map_of errs k)
      else map_of errs k)"
  by (simp add: validateField_def Let_def update_conv)

lemma validate_other_fields:
  "k \<notin> field_id ` set fs \<Longrightarrow> map_of (fold (validateField ans) fs errs) k = map_of errs k"
  by (induction fs arbitrary: errs) (simp_all add: validateField_lookup)

lemma validate_required_field:
  assumes "fld \<in> set fs" and "distinct (map field_id fs)"
    and "required fld" and "\<not> truthy (answerOf ans (field_id fld))"
  shows "map_of (fold (validateField ans) fs errs) (field_id fld) = Some (label fld @ '' is required'')"
  using assms(1,2)
proof (induction fs arbitrary: errs)
  case Nil
  then show ?case by simp
next
  case (Cons g gs)
  show ?case
  proof (cases "g = fld")
    case True
    have "field_id fld \<notin> field_id ` set gs"
      using Cons.prems(2) True by simp
    then show ?thesis
      using True assms(3,4) by (simp add: validate_other_fields validateField_lookup)
  next
    case False
    then show ?thesis
      using Cons by simp
  qed
qed

lemma validate_email_kept:
  assumes "truthy (answerOf ans k)" and "\<not> regex_test emailRegex (js_String (answerOf ans k))"
    and "map_of errs k = Some ''Please enter a valid email address''"
  shows "map_of (fold (validateField ans) fs errs) k = Some ''Please enter a valid email address''"
  using assms(3)
proof (induction fs arbitrary: errs)
  case Nil
  then show ?case by simp
next
  case (Cons g gs)
  have "map_of (validateField ans g errs) k = Some ''Please enter a valid email address''"
    using Cons.prems assms(1,2) by (auto simp: validateField_lookup)
  then show ?case
    using Cons.IH by simp
qed

lemma validate_email_field:
  assumes "fld \<in> set fs" and "field_type fld = Email"
    and "truthy (answerOf ans (field_id fld))"
    and "\<not> regex_test emailRegex (js_String (answerOf ans (field_id fld)))"
  shows "map_of (fold (validateField ans) fs errs) (field_id fld)
           = Some ''Please enter a valid email address''"
  using assms(1)
proof (induction fs arbitrary: errs)
  case Nil
  then show ?case by simp
next
  case (Cons g gs)
  show ?case
  proof (cases "g = fld")
    case True
    have "map_of (validateField ans fld errs) (field_id fld) = Some ''Please enter a valid email address''"
      using assms(2,3,4) by (simp add: validateField_lookup)
    then show ?thesis
      using True validate_email_kept [OF assms(3,4)] by simp
  next
    case False
    then show ?thesis
      using Cons by simp
  qed
qed

lemma validate_no_error:
  assumes "truthy (answerOf ans k)" and "regex_test emailRegex (js_String (answerOf ans k))"
    and "map_of errs k = None"
  shows "map_of (fold (validateField ans) fs errs) k = None"
  using assms(3)
proof (induction fs arbitrary: errs)
  case Nil
  then show ?case by simp
next
  case (Cons g gs)
  have "map_of (validateField ans g errs) k = None"
    using Cons.prems assms(1,2) by (auto simp: validateField_lookup)
  then show ?case
    using Cons.IH by simp
qed

lemma regex_test_not_an_email: "\<not> regex_test emailRegex ''not-an-email''"
  by (simp add: regex_test_def emailRegex_def Plus_def whitespace_or_at_def)

lemma regex_test_a_b_co: "regex_test emailRegex ''a@b.co''"
  by (simp add: regex_test_def emailRegex_def Plus_def whitespace_or_at_def)

lemma handleNext_blocked:
  assumes "fst (validateCurrentPage form (pf_currentPage pf) (pf_answers pf)) \<noteq> []"
  shows "handleNext now form (st, pf) =
           (st, pf\<lparr> pf_errors := fst (validateCurrentPage form (pf_currentPage pf) (pf_answers pf)),
                   pf_toasts := pf_toasts pf @ [fillRequired] \<rparr>)"
  using assms by (simp add: handleNext_def validateCurrentPage_def Let_def)

text \<open>
  For answers that are absent, \<open>undefined\<close> or the empty string, the required check does
  what it is meant to do: every required field of the page whose answer is one of these
  gets its error in the one pass, and Next leaves the page and the store as they are.
\<close>

lemma required_blocks_next:
  assumes "fld \<in> set (currentFields form (pf_currentPage pf))"
    and "distinct (map field_id (currentFields form (pf_currentPage pf)))"
    and "required fld" and "\<not> truthy (answerOf (pf_answers pf) (field_id fld))"
  shows "map_of (pf_errors (snd (handleNext now form (st, pf)))) (field_id fld)
           = Some (label fld @ '' is required'')"
    and "pf_currentPage (snd (handleNext now form (st, pf))) = pf_currentPage pf"
    and "fst (handleNext now form (st, pf)) = st"
    and "isSubmitted (snd (handleNext now form (st, pf))) = isSubmitted pf"
proof -
  let ?errs = "fst (validateCurrentPage form (pf_currentPage pf) (pf_answers pf))"
  have e: "map_of ?errs (field_id fld) = Some (label fld @ '' is required'')"
    using validate_required_field [OF assms] by (simp add: validateCurrentPage_def Let_def)
  then have "?errs \<noteq> []"
    by auto
  then have h: "handleNext now form (st, pf) =
      (st, pf\<lparr>pf_errors := ?errs, pf_toasts := pf_toasts pf @ [fillRequired]\<rparr>)"
    by (rule handleNext_blocked)
  show "map_of (pf_errors (snd (handleNext now form (st, pf)))) (field_id fld)
           = Some (label fld @ '' is required'')"
    using e by (simp add: h)
  show "pf_currentPage (snd (handleNext now form (st, pf))) = pf_currentPage pf"
    by (simp add: h)
  show "fst (handleNext now form (st, pf)) = st"
    by (simp add: h)
  show "isSubmitted (snd (handleNext now form (st, pf))) = isSubmitted pf"
    by (simp add: h)
qed

subsection \<open>Views without handlers\<close>

lemma respond_unavailable:
  "render pf = FormUnavailable \<Longrightarrow> respond now a (st, pf) = (st, pf)"
  by (simp add: respond_def)

lemma session_unavailable:
  "render pf = FormUnavailable \<Longrightarrow> session acts (st, pf) = (st, pf)"
  unfolding session_def
  by (induction acts) (simp_all add: respond_unavailable split: prod.splits)

text \<open>
  Claim C8.  For an email field of the current page, validation leaves the error
  \<open>Please enter a valid email address\<close> at the field when its answer is present and
  does not have the email shape; the answer \<open>not-an-email\<close> gives that error and the
  answer \<open>a@b.co\<close> gives no error.
\<close>

theorem email_validation:
  assumes "fld \<in> set (currentFields form page)" and "field_type fld = Email"
  shows "(truthy (answerOf ans (field_id fld)) \<and> \<not> email_shape (js_String (answerOf ans (field_id fld)))
            \<longrightarrow> map_of (fst (validateCurrentPage form page ans)) (field_id fld)
                  = Some ''Please enter a valid email address'')
       \<and> (answerOf ans (field_id fld) = Str ''not-an-email''
            \<longrightarrow> map_of (fst (validateCurrentPage form page ans)) (field_id fld)
                  = Some ''Please enter a valid email address'')
       \<and> (answerOf ans (field_id fld) = Str ''a@b.co''
            \<longrightarrow> map_of (fst (validateCurrentPage form page ans)) (field_id fld) = None)"
proof (intro conjI impI)
  assume "truthy (answerOf ans (field_id fld)) \<and> \<not> email_shape (js_String (answerOf ans (field_id fld)))"
  then show "map_of (fst (validateCurrentPage form page ans)) (field_id fld)
                  = Some ''Please enter a valid email address''"
    using validate_email_field [OF assms]
    by (simp add: validateCurrentPage_def emailRegex_shape Let_def)
next
  assume "answerOf ans (field_id fld) = Str ''not-an-email''"
  then show "map_of (fst (validateCurrentPage form page ans)) (field_id fld)
                  = Some ''Please enter a valid email address''"
    using validate_email_field [OF assms, of ans] regex_test_not_an_email
    by (simp add: validateCurrentPage_def Let_def)
next
  assume "answerOf ans (field_id fld) = Str ''a@b.co''"
  then show "map_of (fst (validateCurrentPage form page ans)) (field_id fld) = None"
    using validate_no_error [of ans "field_id fld" "[]"] regex_test_a_b_co
    by (simp add: validateCurrentPage_def Let_def)
qed

theorem email_validation_witness:
  "field ''f3'' Email ''Email Address'' True 1 \<in> set (currentFields (mockForms ! 0) 1)
   \<and> field_type (field ''f3'' Email ''Email Address'' True 1) = Email
   \<and> truthy (answerOf [(''f3'', Str ''not-an-email'')] ''f3'')
   \<and> \<not> email_shape (js_String (answerOf [(''f3'', Str ''not-an-email'')] ''f3''))
   \<and> map_of (fst (validateCurrentPage (mockForms ! 0) 1 [(''f3'', Str ''not-an-email'')])) ''f3''
       = Some ''Please enter a valid email address''
   \<and> map_of (fst (validateCurrentPage (mockForms ! 0) 1 [(''f3'', Str ''a@b.co'')])) ''f3'' = None"
proof -
  let ?f = "field ''f3'' Email ''Email Address'' True 1"
  let ?bad = "[(''f3'', Str ''not-an-email'')]"
  let ?good = "[(''f3'', Str ''a@b.co'')]"
  have m: "?f \<in> set (currentFields (mockForms ! 0) 1)"
    by (simp add: currentFields_def mockForms_def field_def)
  have t: "field_type ?f = Email" and i: "field_id ?f = ''f3''"
    by (simp_all add: field_def)
  have a: "answerOf ?bad ''f3'' = Str ''not-an-email''"
    and b: "answerOf ?good ''f3'' = Str ''a@b.co''"
    by (simp_all add: answerOf_def)
  have p: "truthy (answerOf ?bad ''f3'')"
    by (simp add: a)
  have n: "\<not> email_shape (js_String (answerOf ?bad ''f3''))"
    using regex_test_not_an_email by (simp add: emailRegex_shape a)
  have e1: "map_of (fst (validateCurrentPage (mockForms ! 0) 1 ?bad)) ''f3''
       = Some ''Please enter a valid email address''"
    using email_validation [OF m t, of ?bad] p n by (simp only: i) blast
  have e2: "map_of (fst (validateCurrentPage (mockForms ! 0) 1 ?good)) ''f3'' = None"
    using email_validation [OF m t, of ?good] b by (simp only: i)
  show ?thesis
    using m t p n e1 e2 by blast
qed

text \<open>
  Claim C6.  When the form that the respondent page finds under the identifier is
  inactive, the page shows the unavailable message, and whatever the respondent does
  then, it keeps showing it and the store, with its responses, stays as it is: no page of
  fields is shown and no response is recorded.
\<close>

theorem inactive_form_unavailable:
  assumes "getFormById fid st = Some form" and "status form = Inactive"
  shows "render (PublicForm_mount (Some fid) st) = FormUnavailable
       \<and> session acts (st, PublicForm_mount (Some fid) st) = (st, PublicForm_mount (Some fid) st)
       \<and> render (snd (session acts (st, PublicForm_mount (Some fid) st))) = FormUnavailable
       \<and> responses (fst (session acts (st, PublicForm_mount (Some fid) st))) = responses st"
proof -
  have r: "render (PublicForm_mount (Some fid) st) = FormUnavailable"
    using assms by (simp add: render_def PublicForm_mount_def)
  then show ?thesis
    by (simp add: session_unavailable)
qed

theorem inactive_form_unavailable_witness:
  "getFormById ''3'' initialStore = Some (mockForms ! 2)
   \<and> status (mockForms ! 2) = Inactive
   \<and> session [(1705800000000, Enter ''f1'' (Str ''Ann'')), (1705800001000, ClickNext)]
       (initialStore, PublicForm_mount (Some ''3'') initialStore)
       = (initialStore, PublicForm_mount (Some ''3'') initialStore)
   \<and> render (PublicForm_mount (Some ''3'') initialStore) = FormUnavailable"
proof -
  have g: "getFormById ''3'' initialStore = Some (mockForms ! 2)"
    by (simp add: getFormById_def initialStore_def mockForms_def)
  have s: "status (mockForms ! 2) = Inactive"
    by (simp add: mockForms_def)
  show ?thesis
    using g s inactive_form_unavailable [OF g s]
    by simp
qed

text \<open>
  Claim C5, evaluated on a form whose only field is a required group of checkboxes.
  Ticking an option and unticking it leaves the empty list as the answer, which is
  truthy: Next records no error and, on this last page, submits the empty selection.
\<close>

theorem required_checkbox_unticked:
  "map required (currentFields checkboxForm 1) = [True]
   \<and> render (PublicForm_mount (Some ''6'') (published checkboxForm)) = Filling 1
   \<and> pf_answers (snd untickedSession) = [(''c1'', Strs [])]
   \<and> pf_errors (snd untickedSession) = []
   \<and> isSubmitted (snd untickedSession)
   \<and> map response_answers (responses (fst untickedSession))
       = map response_answers mockResponses @ [[(''c1'', Strs [])]]"
  by (simp add: untickedSession_def session_def respond_def published_def checkboxForm_def
      exampleForm_def field_def PublicForm_mount_def getFormById_def mockForms_def
      updateAnswer_def handleNext_def validateCurrentPage_def validateField_def currentFields_def
      answerOf_def PublicForm_totalPages_def pages_def handleSubmit_def submitResponse_def
      render_def Let_def)

end
